theory Spec2Isabelle
  imports Main
begin

section \<open>Clock source\<close>

text \<open>
  The value that \<^verbatim>\<open>date.today()\<close> returns: a calendar date. Python's \<^verbatim>\<open>datetime.date\<close>
  only holds dates with \<open>1 \<le> year \<le> 9999\<close>, \<open>1 \<le> month \<le> 12\<close> and a day of that month
  (\<open>py_date\<close> below).
\<close>

record date =
  d_year :: nat
  d_month :: nat
  d_day :: nat

definition is_leap :: "nat \<Rightarrow> bool" where
  "is_leap y = (y mod 4 = 0 \<and> (y mod 100 \<noteq> 0 \<or> y mod 400 = 0))"

definition days_in_month :: "nat \<Rightarrow> nat \<Rightarrow> nat" where
  "days_in_month y m =
     (if m = 2 then (if is_leap y then 29 else 28)
      else if m = 4 \<or> m = 6 \<or> m = 9 \<or> m = 11 then 30 else 31)"

definition py_date :: "date \<Rightarrow> bool" where
  "py_date d =
     (1 \<le> d_year d \<and> d_year d \<le> 9999 \<and> 1 \<le> d_month d \<and> d_month d \<le> 12 \<and>
      1 \<le> d_day d \<and> d_day d \<le> days_in_month (d_year d) (d_month d))"

text \<open>Decimal printing, as \<^verbatim>\<open>%d\<close> and \<^verbatim>\<open>str\<close> do it, and zero padding to a width.\<close>

definition digit :: "nat \<Rightarrow> char" where
  "digit n = ''0123456789'' ! (n mod 10)"

fun str_nat :: "nat \<Rightarrow> string" where
  "str_nat n = (if n < 10 then [digit n] else str_nat (n div 10) @ [digit n])"

declare str_nat.simps [simp del]

definition str_int :: "int \<Rightarrow> string" where
  "str_int i = (if i < 0 then CHR ''-'' # str_nat (nat (- i)) else str_nat (nat i))"

definition zero_pad :: "nat \<Rightarrow> string \<Rightarrow> string" where
  "zero_pad w s = replicate (w - length s) CHR ''0'' @ s"

text \<open>
  \<^verbatim>\<open>date.isoformat()\<close> prints \<^verbatim>\<open>YYYY-MM-DD\<close> and \<^verbatim>\<open>date.strftime("%Y-%m")\<close> prints
  \<^verbatim>\<open>YYYY-MM\<close>, the year on four digits and the month on two, as Python documents
  \<^verbatim>\<open>%Y\<close> and \<^verbatim>\<open>%m\<close>. (Some C libraries print a year below 1000 without the zeros in
  front under \<^verbatim>\<open>%Y\<close>; \<^verbatim>\<open>date.today()\<close> returns no such year. \<^verbatim>\<open>isoformat\<close> always
  pads.)
\<close>

definition isoformat :: "date \<Rightarrow> string" where
  "isoformat d =
     zero_pad 4 (str_nat (d_year d)) @ ''-'' @ zero_pad 2 (str_nat (d_month d)) @ ''-'' @
     zero_pad 2 (str_nat (d_day d))"

definition strftime_Y_m :: "date \<Rightarrow> string" where
  "strftime_Y_m d = zero_pad 4 (str_nat (d_year d)) @ ''-'' @ zero_pad 2 (str_nat (d_month d))"

text \<open>
  \<^verbatim>\<open>get_today_key\<close> and \<^verbatim>\<open>get_month_key\<close> each read \<^verbatim>\<open>date.today()\<close>; the argument is
  the date that this read returned.
\<close>

definition get_today_key :: "date \<Rightarrow> string" where
  "get_today_key now = isoformat now"

definition get_month_key :: "date \<Rightarrow> string" where
  "get_month_key now = strftime_Y_m now"

text \<open>
  One operation reads the clock several times. A \<open>clock\<close> gives the date that the
  \<open>k\<close>-th read of \<^verbatim>\<open>date.today()\<close> inside the operation returns (counting from 0);
  \<open>fixed_clock d\<close> is a clock that shows the date \<open>d\<close> at every read.
\<close>

type_synonym clock = "nat \<Rightarrow> date"

definition fixed_clock :: "date \<Rightarrow> clock" where
  "fixed_clock d = (\<lambda>k. d)"

definition later :: "nat \<Rightarrow> clock \<Rightarrow> clock" where
  "later n clk = (\<lambda>k. clk (k + n))"

section \<open>Usage ledger\<close>

text \<open>
  \<^verbatim>\<open>usage_data = {"daily": {}, "monthly": {}}\<close>: two dictionaries from key strings to
  Python integers. \<open>usage_data\<close> is the value at process start.
\<close>

record ledger =
  daily :: "string \<rightharpoonup> int"
  monthly :: "string \<rightharpoonup> int"

definition usage_data :: ledger where
  "usage_data = \<lparr>daily = Map.empty, monthly = Map.empty\<rparr>"

definition DAILY_LIMIT :: int where
  "DAILY_LIMIT = 100"

text \<open>\<^verbatim>\<open>d.get(k, default)\<close>: a lookup that neither raises nor inserts.\<close>

definition dict_get :: "('k \<rightharpoonup> 'v) \<Rightarrow> 'k \<Rightarrow> 'v \<Rightarrow> 'v" where
  "dict_get m k dflt = (case m k of None \<Rightarrow> dflt | Some v \<Rightarrow> v)"

text \<open>The dictionary that \<^verbatim>\<open>get_usage_stats\<close> returns has these four keys.\<close>

record usage_stats =
  today :: int
  todayRemaining :: int
  month :: int
  dailyLimit :: int

text \<open>
  Both ledger operations work on the global \<^verbatim>\<open>usage_data\<close>: they take the ledger and
  return their result with the ledger they leave behind.
\<close>

definition get_usage_stats :: "clock \<Rightarrow> ledger \<Rightarrow> usage_stats \<times> ledger" where
  "get_usage_stats clk u =
     (let today_key = get_today_key (clk 0);
          month_key = get_month_key (clk 1);
          today_count = dict_get (daily u) today_key 0;
          month_count = dict_get (monthly u) month_key 0
      in (\<lparr>today = today_count,
           todayRemaining = max 0 (DAILY_LIMIT - today_count),
           month = month_count,
           dailyLimit = DAILY_LIMIT\<rparr>, u))"

definition increment_usage :: "clock \<Rightarrow> ledger \<Rightarrow> usage_stats \<times> ledger" where
  "increment_usage clk u =
     (let today_key = get_today_key (clk 0);
          month_key = get_month_key (clk 1);
          u1 = u\<lparr>daily := (daily u)(today_key \<mapsto> dict_get (daily u) today_key 0 + 1)\<rparr>;
          u2 = u1\<lparr>monthly := (monthly u1)(month_key \<mapsto> dict_get (monthly u1) month_key 0 + 1)\<rparr>
      in get_usage_stats (later 2 clk) u2)"

section \<open>Upstream gateway and request router\<close>

text \<open>
  A JSON document, as \<^verbatim>\<open>response.json()\<close> parses it and \<^verbatim>\<open>jsonify\<close> writes it back.
  The proxy relays floating-point numbers without computing on them, so their type is
  left abstract.
\<close>

typedecl py_float

datatype json =
  JNull
  | JBool bool
  | JInt int
  | JFloat py_float
  | JString string
  | JArray "json list"
  | JObject "(string \<times> json) list"

text \<open>The two credentials, read from the environment once at start (empty when unset).\<close>

record config =
  CBBD_API_KEY :: string
  ODDS_API_KEY :: string

definition CBBD_API_BASE :: string where
  "CBBD_API_BASE = ''https://api.collegebasketballdata.com''"

definition ODDS_API_BASE :: string where
  "ODDS_API_BASE = ''https://api.the-odds-api.com/v4''"

text \<open>The arguments of one \<^verbatim>\<open>requests.get\<close> call.\<close>

record outbound =
  url :: string
  params :: "(string \<times> string) list"
  headers :: "(string \<times> string) list"
  timeout :: nat

text \<open>
  What the upstream does with a call: \<^verbatim>\<open>requests.get\<close> raises (\<open>Raised\<close>, with the
  exception's \<^verbatim>\<open>str\<close>), or it returns a response with its \<^verbatim>\<open>status_code\<close> and what
  \<^verbatim>\<open>response.json()\<close> gives: \<open>Inr\<close> the parsed body, or \<open>Inl\<close> the \<^verbatim>\<open>str\<close> of the exception
  it raises on a body that is not JSON. The network is a function from the call to its
  outcome; \<open>upstream_always r\<close> answers every call with \<open>r\<close>.
\<close>

datatype upstream = Raised string | Response int "string + json"

type_synonym network = "outbound \<Rightarrow> upstream"

definition upstream_always :: "upstream \<Rightarrow> network" where
  "upstream_always r = (\<lambda>req. r)"

text \<open>
  What a route handler leaves behind: the Flask response (body and status code), the
  ledger after the call, and the outbound calls it made, in order. The handlers' \<^verbatim>\<open>print\<close>
  lines are not modelled.
\<close>

record outcome =
  response :: "json \<times> int"
  ledger_after :: ledger
  calls :: "outbound list"

definition error_body :: "string \<Rightarrow> json" where
  "error_body msg = JObject [(''error'', JString msg)]"

definition stats_body :: "usage_stats \<Rightarrow> json" where
  "stats_body s =
     JObject [(''today'', JInt (today s)), (''todayRemaining'', JInt (todayRemaining s)),
              (''month'', JInt (month s)), (''dailyLimit'', JInt (dailyLimit s))]"

definition health :: "clock \<Rightarrow> ledger \<Rightarrow> outcome" where
  "health clk u =
     (let (stats, u') = get_usage_stats clk u
      in \<lparr>response =
            (JObject [(''status'', JString ''ok''),
                      (''service'', JString ''CBB Edge Finder Proxy''),
                      (''usage'', stats_body stats)], 200),
          ledger_after = u', calls = []\<rparr>)"

definition usage :: "clock \<Rightarrow> ledger \<Rightarrow> outcome" where
  "usage clk u =
     (let (stats, u') = get_usage_stats clk u
      in \<lparr>response = (stats_body stats, 200), ledger_after = u', calls = []\<rparr>)"

definition get_odds :: "config \<Rightarrow> network \<Rightarrow> ledger \<Rightarrow> outcome" where
  "get_odds cfg net u =
     (if ODDS_API_KEY cfg = [] then
        \<lparr>response = (error_body ''ODDS_API_KEY not configured'', 500),
         ledger_after = u, calls = []\<rparr>
      else
        let req = \<lparr>url = ODDS_API_BASE @ ''/sports/basketball_ncaab/odds/'',
                   params = [(''apiKey'', ODDS_API_KEY cfg), (''regions'', ''us''),
                             (''markets'', ''spreads,totals''), (''oddsFormat'', ''american'')],
                   headers = [], timeout = 30\<rparr>
        in case net req of
             Raised e \<Rightarrow> \<lparr>response = (error_body e, 500), ledger_after = u, calls = [req]\<rparr>
           | Response status_code body \<Rightarrow>
               (if status_code = 200 then
                  (case body of
                     Inr j \<Rightarrow> \<lparr>response = (j, 200), ledger_after = u, calls = [req]\<rparr>
                   | Inl e \<Rightarrow> \<lparr>response = (error_body e, 500), ledger_after = u, calls = [req]\<rparr>)
                else
                  (case body of
                     Inr j \<Rightarrow> \<lparr>response = (j, status_code), ledger_after = u, calls = [req]\<rparr>
                   | Inl e \<Rightarrow> \<lparr>response = (error_body e, 500), ledger_after = u, calls = [req]\<rparr>)))"

text \<open>
  \<open>args\<close> is the query string of the inbound request; \<^verbatim>\<open>request.args.get\<close> takes the
  first value of a key.
\<close>

definition get_ratings :: "config \<Rightarrow> (string \<times> string) list \<Rightarrow> network \<Rightarrow> clock \<Rightarrow> ledger \<Rightarrow> outcome" where
  "get_ratings cfg args net clk u =
     (if CBBD_API_KEY cfg = [] then
        \<lparr>response = (error_body ''CBBD_API_KEY not configured'', 500),
         ledger_after = u, calls = []\<rparr>
      else
        let season = (case map_of args ''season'' of None \<Rightarrow> ''2026'' | Some s \<Rightarrow> s);
            req = \<lparr>url = CBBD_API_BASE @ ''/ratings/adjusted'',
                   params = [(''season'', season)],
                   headers = [(''Authorization'', ''Bearer '' @ CBBD_API_KEY cfg),
                              (''Content-Type'', ''application/json'')],
                   timeout = 30\<rparr>
        in case net req of
             Raised e \<Rightarrow> \<lparr>response = (error_body e, 500), ledger_after = u, calls = [req]\<rparr>
           | Response status_code body \<Rightarrow>
               (if status_code = 200 then
                  (let (stats, u') = increment_usage clk u
                   in case body of
                        Inr j \<Rightarrow> \<lparr>response = (j, 200), ledger_after = u', calls = [req]\<rparr>
                      | Inl e \<Rightarrow> \<lparr>response = (error_body e, 500), ledger_after = u', calls = [req]\<rparr>)
                else
                  \<lparr>response = (error_body (''API returned '' @ str_int status_code), status_code),
                   ledger_after = u, calls = [req]\<rparr>))"

definition get_games :: "config \<Rightarrow> (string \<times> string) list \<Rightarrow> network \<Rightarrow> clock \<Rightarrow> ledger \<Rightarrow> outcome" where
  "get_games cfg args net clk u =
     (if CBBD_API_KEY cfg = [] then
        \<lparr>response = (error_body ''CBBD_API_KEY not configured'', 500),
         ledger_after = u, calls = []\<rparr>
      else
        let season = (case map_of args ''season'' of None \<Rightarrow> ''2026'' | Some s \<Rightarrow> s);
            req = \<lparr>url = CBBD_API_BASE @ ''/games'',
                   params = [(''season'', season)],
                   headers = [(''Authorization'', ''Bearer '' @ CBBD_API_KEY cfg),
                              (''Content-Type'', ''application/json'')],
                   timeout = 30\<rparr>
        in case net req of
             Raised e \<Rightarrow> \<lparr>response = (error_body e, 500), ledger_after = u, calls = [req]\<rparr>
           | Response status_code body \<Rightarrow>
               (if status_code = 200 then
                  (let (stats, u') = increment_usage clk u
                   in case body of
                        Inr j \<Rightarrow> \<lparr>response = (j, 200), ledger_after = u', calls = [req]\<rparr>
                      | Inl e \<Rightarrow> \<lparr>response = (error_body e, 500), ledger_after = u', calls = [req]\<rparr>)
                else
                  \<lparr>response = (error_body (''API returned '' @ str_int status_code), status_code),
                   ledger_after = u, calls = [req]\<rparr>))"

definition get_teams :: "config \<Rightarrow> network \<Rightarrow> clock \<Rightarrow> ledger \<Rightarrow> outcome" where
  "get_teams cfg net clk u =
     (if CBBD_API_KEY cfg = [] then
        \<lparr>response = (error_body ''CBBD_API_KEY not configured'', 500),
         ledger_after = u, calls = []\<rparr>
      else
        let req = \<lparr>url = CBBD_API_BASE @ ''/teams'',
                   params = [],
                   headers = [(''Authorization'', ''Bearer '' @ CBBD_API_KEY cfg),
                              (''Content-Type'', ''application/json'')],
                   timeout = 30\<rparr>
        in case net req of
             Raised e \<Rightarrow> \<lparr>response = (error_body e, 500), ledger_after = u, calls = [req]\<rparr>
           | Response status_code body \<Rightarrow>
               (if status_code = 200 then
                  (let (stats, u') = increment_usage clk u
                   in case body of
                        Inr j \<Rightarrow> \<lparr>response = (j, 200), ledger_after = u', calls = [req]\<rparr>
                      | Inl e \<Rightarrow> \<lparr>response = (error_body e, 500), ledger_after = u', calls = [req]\<rparr>)
                else
                  \<lparr>response = (error_body (''API returned '' @ str_int status_code), status_code),
                   ledger_after = u, calls = [req]\<rparr>))"

section \<open>Notions used to state the properties\<close>

text \<open>A sequence of \<^verbatim>\<open>increment_usage()\<close> calls, one per clock of the list, in order.\<close>

primrec increments :: "clock list \<Rightarrow> ledger \<Rightarrow> ledger" where
  "increments [] u = u"
| "increments (c # cs) u = increments cs (snd (increment_usage c u))"

text \<open>
  The upstream's answer to the one outbound call that a handler made (\<open>None\<close> when it
  made no call, or more than one).
\<close>

definition upstream_answer :: "network \<Rightarrow> outcome \<Rightarrow> upstream option" where
  "upstream_answer net out = (case calls out of [req] \<Rightarrow> Some (net req) | _ \<Rightarrow> None)"

text \<open>
  What a quota-counted endpoint owes the ledger, for a call that started on the ledger \<open>u\<close>:
  one \<^verbatim>\<open>increment_usage()\<close> when the upstream answered with status 200, and otherwise the
  ledger as it was, with the error result as the response.
\<close>

definition quota_counted :: "network \<Rightarrow> clock \<Rightarrow> ledger \<Rightarrow> outcome \<Rightarrow> bool" where
  "quota_counted net clk u out =
     (case upstream_answer net out of
        None \<Rightarrow> False
      | Some (Raised e) \<Rightarrow> ledger_after out = u \<and> response out = (error_body e, 500)
      | Some (Response status_code body) \<Rightarrow>
          if status_code = 200 then ledger_after out = snd (increment_usage clk u)
          else ledger_after out = u \<and>
               response out = (error_body (''API returned '' @ str_int status_code), status_code))"

text \<open>
  A day-key \<^verbatim>\<open>YYYY-MM-DD\<close> belongs to the month whose key is its first seven characters
  (lemma \<open>month_key_of_today_key\<close> below: for a date of Python, these are the
  month-key of the same date). \<open>month_total dly M\<close> adds up the daily counts stored under
  the day-keys of month \<open>M\<close>.
\<close>

definition month_of_day_key :: "string \<Rightarrow> string" where
  "month_of_day_key k = take 7 k"

definition month_total :: "(string \<rightharpoonup> int) \<Rightarrow> string \<Rightarrow> int" where
  "month_total dly M = (\<Sum>k \<in> {k \<in> dom dly. month_of_day_key k = M}. the (dly k))"

definition ledger_inv :: "ledger \<Rightarrow> bool" where
  "ledger_inv u =
     ((\<forall>c \<in> ran (daily u). 1 \<le> c) \<and> (\<forall>c \<in> ran (monthly u). 1 \<le> c) \<and>
      (\<forall>M \<in> dom (monthly u). the (monthly u M) = month_total (daily u) M))"

text \<open>
  The day after a date in the calendar of Python's \<^verbatim>\<open>date\<close>: what the clock shows once
  midnight has passed.
\<close>

definition next_day :: "date \<Rightarrow> date" where
  "next_day d =
     (if d_day d < days_in_month (d_year d) (d_month d) then
        \<lparr>d_year = d_year d, d_month = d_month d, d_day = d_day d + 1\<rparr>
      else if d_month d < 12 then \<lparr>d_year = d_year d, d_month = d_month d + 1, d_day = 1\<rparr>
      else \<lparr>d_year = d_year d + 1, d_month = 1, d_day = 1\<rparr>)"

text \<open>
  Reading a decimal numeral back, zeros in front included: the inverse of \<open>str_nat\<close> and
  of \<open>zero_pad\<close>, used to show that different dates have different day-keys.
\<close>

definition digit_val :: "char \<Rightarrow> nat" where
  "digit_val c = (of_char c - 48)"

definition nat_of_digits :: "string \<Rightarrow> nat" where
  "nat_of_digits s = foldl (\<lambda>a c. 10 * a + digit_val c) 0 s"

text \<open>
  The invariant that the induction over a run needs: it also covers the months with no
  entry yet, whose days have no entry either.
\<close>

definition strong_inv :: "ledger \<Rightarrow> bool" where
  "strong_inv u =
     (finite (dom (daily u)) \<and> (\<forall>k c. daily u k = Some c \<longrightarrow> 1 \<le> c) \<and>
      (\<forall>M c. monthly u M = Some c \<longrightarrow> 1 \<le> c) \<and>
      (\<forall>M. dict_get (monthly u) M 0 = month_total (daily u) M))"

text \<open>
  The outbound call of each handler, and the two shapes that the handlers' \<^verbatim>\<open>try\<close> blocks
  have: the three statistics endpoints share \<open>counted_relay\<close>, the odds endpoint is
  \<open>plain_relay\<close> (lemmas \<open>get_ratings_relay\<close> to \<open>get_odds_relay\<close> below).
\<close>

definition ratings_call :: "config \<Rightarrow> (string \<times> string) list \<Rightarrow> outbound" where
  "ratings_call cfg args =
     \<lparr>url = CBBD_API_BASE @ ''/ratings/adjusted'',
      params = [(''season'', case map_of args ''season'' of None \<Rightarrow> ''2026'' | Some s \<Rightarrow> s)],
      headers = [(''Authorization'', ''Bearer '' @ CBBD_API_KEY cfg),
                 (''Content-Type'', ''application/json'')],
      timeout = 30\<rparr>"

definition games_call :: "config \<Rightarrow> (string \<times> string) list \<Rightarrow> outbound" where
  "games_call cfg args =
     \<lparr>url = CBBD_API_BASE @ ''/games'',
      params = [(''season'', case map_of args ''season'' of None \<Rightarrow> ''2026'' | Some s \<Rightarrow> s)],
      headers = [(''Authorization'', ''Bearer '' @ CBBD_API_KEY cfg),
                 (''Content-Type'', ''application/json'')],
      timeout = 30\<rparr>"

definition teams_call :: "config \<Rightarrow> outbound" where
  "teams_call cfg =
     \<lparr>url = CBBD_API_BASE @ ''/teams'', params = [],
      headers = [(''Authorization'', ''Bearer '' @ CBBD_API_KEY cfg),
                 (''Content-Type'', ''application/json'')],
      timeout = 30\<rparr>"

definition odds_call :: "config \<Rightarrow> outbound" where
  "odds_call cfg =
     \<lparr>url = ODDS_API_BASE @ ''/sports/basketball_ncaab/odds/'',
      params = [(''apiKey'', ODDS_API_KEY cfg), (''regions'', ''us''),
                (''markets'', ''spreads,totals''), (''oddsFormat'', ''american'')],
      headers = [], timeout = 30\<rparr>"

definition counted_relay :: "outbound \<Rightarrow> network \<Rightarrow> clock \<Rightarrow> ledger \<Rightarrow> outcome" where
  "counted_relay req net clk u =
     (case net req of
        Raised e \<Rightarrow> \<lparr>response = (error_body e, 500), ledger_after = u, calls = [req]\<rparr>
      | Response status_code body \<Rightarrow>
          (if status_code = 200 then
             (let (stats, u') = increment_usage clk u
              in case body of
                   Inr j \<Rightarrow> \<lparr>response = (j, 200), ledger_after = u', calls = [req]\<rparr>
                 | Inl e \<Rightarrow> \<lparr>response = (error_body e, 500), ledger_after = u', calls = [req]\<rparr>)
           else
             \<lparr>response = (error_body (''API returned '' @ str_int status_code), status_code),
              ledger_after = u, calls = [req]\<rparr>))"

definition plain_relay :: "outbound \<Rightarrow> network \<Rightarrow> ledger \<Rightarrow> outcome" where
  "plain_relay req net u =
     (case net req of
        Raised e \<Rightarrow> \<lparr>response = (error_body e, 500), ledger_after = u, calls = [req]\<rparr>
      | Response status_code body \<Rightarrow>
          (case body of
             Inr j \<Rightarrow> \<lparr>response = (j, status_code), ledger_after = u, calls = [req]\<rparr>
           | Inl e \<Rightarrow> \<lparr>response = (error_body e, 500), ledger_after = u, calls = [req]\<rparr>))"

section \<open>Basic facts\<close>

subsection \<open>Clocks and keys\<close>

lemma fixed_clock_apply [simp]: "fixed_clock d k = d"
  by (simp add: fixed_clock_def)

lemma later_fixed_clock [simp]: "later n (fixed_clock d) = fixed_clock d"
  by (simp add: later_def fixed_clock_def)

lemma length_str_nat: "n < 10 ^ Suc k \<Longrightarrow> length (str_nat n) \<le> Suc k"
proof (induction k arbitrary: n)
  case 0
  then show ?case by (simp add: str_nat.simps [of n])
next
  case (Suc k)
  show ?case
  proof (cases "n < 10")
    case True
    then show ?thesis by (simp add: str_nat.simps [of n])
  next
    case False
    from Suc.prems have "n div 10 < 10 ^ Suc k" by (simp add: less_mult_imp_div_less)
    then have "length (str_nat (n div 10)) \<le> Suc k" by (rule Suc.IH)
    with False show ?thesis by (simp add: str_nat.simps [of n])
  qed
qed

lemma length_zero_pad: "length s \<le> w \<Longrightarrow> length (zero_pad w s) = w"
  by (simp add: zero_pad_def)

lemma month_key_of_today_key:
  assumes "py_date d"
  shows "take 7 (get_today_key d) = get_month_key d"
proof -
  from assms have "d_year d < 10 ^ Suc 3" and "d_month d < 10 ^ Suc 1"
    by (simp_all add: py_date_def)
  then have "length (str_nat (d_year d)) \<le> 4" and "length (str_nat (d_month d)) \<le> 2"
    using length_str_nat [of "d_year d" 3] length_str_nat [of "d_month d" 1] by simp_all
  then have "length (zero_pad 4 (str_nat (d_year d))) = 4"
    and "length (zero_pad 2 (str_nat (d_month d))) = 2"
    by (simp_all add: length_zero_pad)
  then show ?thesis
    by (simp add: get_today_key_def get_month_key_def isoformat_def strftime_Y_m_def)
qed

lemmas key_eval = get_today_key_def get_month_key_def isoformat_def strftime_Y_m_def zero_pad_def
  digit_def str_nat.simps

subsection \<open>Different dates have different day-keys\<close>

lemma digit_val_digit: "digit_val (digit n) = n mod 10"
proof -
  have "n mod 10 < 10" by simp
  then have "n mod 10 \<in> {0, 1, 2, 3, 4, 5, 6, 7, 8, 9}" by (simp only: insert_iff empty_iff) arith
  then show ?thesis
    unfolding digit_def digit_val_def by (elim insertE emptyE) simp_all
qed

lemma nat_of_digits_snoc: "nat_of_digits (s @ [c]) = 10 * nat_of_digits s + digit_val c"
  by (simp add: nat_of_digits_def)

lemma nat_of_digits_str_nat: "nat_of_digits (str_nat n) = n"
proof (induction n rule: str_nat.induct)
  case (1 n)
  show ?case
  proof (cases "n < 10")
    case True
    then show ?thesis
      by (simp add: str_nat.simps [of n] nat_of_digits_def digit_val_digit)
  next
    case False
    with 1 have "nat_of_digits (str_nat (n div 10)) = n div 10" by simp
    with False show ?thesis
      by (simp add: str_nat.simps [of n] nat_of_digits_snoc digit_val_digit)
  qed
qed

lemma nat_of_digits_zeros: "nat_of_digits (replicate k CHR ''0'' @ s) = nat_of_digits s"
  by (induction k) (simp_all add: nat_of_digits_def digit_val_def)

lemma nat_of_digits_zero_pad: "nat_of_digits (zero_pad w (str_nat n)) = n"
  by (simp add: zero_pad_def nat_of_digits_zeros nat_of_digits_str_nat)


lemma pad_width:
  "n < 10000 \<Longrightarrow> length (zero_pad 4 (str_nat n)) = 4"
  "n < 100 \<Longrightarrow> length (zero_pad 2 (str_nat n)) = 2"
  using length_str_nat [of n 3] length_str_nat [of n 1] by (simp_all add: length_zero_pad)

lemma today_key_inj:
  assumes a: "py_date a" and b: "py_date b" and eq: "get_today_key a = get_today_key b"
  shows "a = b"
proof -
  let ?y = "\<lambda>d. zero_pad 4 (str_nat (d_year d))"
  let ?m = "\<lambda>d. zero_pad 2 (str_nat (d_month d))"
  let ?d = "\<lambda>d. zero_pad 2 (str_nat (d_day d))"
  have ly: "length (?y a) = 4" "length (?y b) = 4"
    using a b by (simp_all add: py_date_def pad_width)
  have lm: "length (?m a) = 2" "length (?m b) = 2"
    using a b by (simp_all add: py_date_def pad_width)
  from eq have e: "?y a @ ''-'' @ ?m a @ ''-'' @ ?d a = ?y b @ ''-'' @ ?m b @ ''-'' @ ?d b"
    by (simp add: get_today_key_def isoformat_def)
  from e ly have y: "?y a = ?y b" and r1: "?m a @ ''-'' @ ?d a = ?m b @ ''-'' @ ?d b"
    by simp_all
  from r1 lm have m: "?m a = ?m b" and d: "?d a = ?d b"
    by simp_all
  have "d_year a = d_year b"
    using arg_cong [OF y, of nat_of_digits] by (simp add: nat_of_digits_zero_pad)
  moreover have "d_month a = d_month b"
    using arg_cong [OF m, of nat_of_digits] by (simp add: nat_of_digits_zero_pad)
  moreover have "d_day a = d_day b"
    using arg_cong [OF d, of nat_of_digits] by (simp add: nat_of_digits_zero_pad)
  ultimately show ?thesis by simp
qed

lemma days_in_month_bounds: "28 \<le> days_in_month y m \<and> days_in_month y m \<le> 31"
  by (simp add: days_in_month_def)

lemma next_day_neq: "next_day d \<noteq> d"
proof
  assume "next_day d = d"
  then have "d_day (next_day d) = d_day d" and "d_month (next_day d) = d_month d"
    and "d_year (next_day d) = d_year d" by simp_all
  then show False
    by (simp add: next_day_def split: if_splits)
qed

lemma py_date_next_day:
  assumes "py_date d" and "d \<noteq> \<lparr>d_year = 9999, d_month = 12, d_day = 31\<rparr>"
  shows "py_date (next_day d)"
proof -
  have last: "\<not> (d_year d = 9999 \<and> d_month d = 12 \<and> d_day d = 31)"
    using assms(2) by (cases d) simp
  have dm: "days_in_month (d_year d) 12 = 31" by (simp add: days_in_month_def)
  show ?thesis
    using assms(1) last dm days_in_month_bounds [of "d_year d" "d_month d + 1"]
      days_in_month_bounds [of "d_year d + 1" 1]
    by (auto simp: py_date_def next_day_def)
qed

lemma next_day_examples:
  "next_day \<lparr>d_year = 2026, d_month = 11, d_day = 30\<rparr> = \<lparr>d_year = 2026, d_month = 12, d_day = 1\<rparr>"
  "next_day \<lparr>d_year = 2026, d_month = 12, d_day = 31\<rparr> = \<lparr>d_year = 2027, d_month = 1, d_day = 1\<rparr>"
  "next_day \<lparr>d_year = 2028, d_month = 2, d_day = 28\<rparr> = \<lparr>d_year = 2028, d_month = 2, d_day = 29\<rparr>"
  "next_day \<lparr>d_year = 2026, d_month = 2, d_day = 28\<rparr> = \<lparr>d_year = 2026, d_month = 3, d_day = 1\<rparr>"
  by (simp_all add: next_day_def days_in_month_def is_leap_def)

subsection \<open>The ledger operations\<close>

lemma snd_get_usage_stats [simp]: "snd (get_usage_stats clk u) = u"
  by (simp add: get_usage_stats_def Let_def)

lemma snd_increment_usage:
  "snd (increment_usage clk u) =
     \<lparr>daily = (daily u)(get_today_key (clk 0) \<mapsto> dict_get (daily u) (get_today_key (clk 0)) 0 + 1),
      monthly = (monthly u)(get_month_key (clk 1) \<mapsto> dict_get (monthly u) (get_month_key (clk 1)) 0 + 1)\<rparr>"
  by (simp add: increment_usage_def Let_def)

lemma daily_increments_same_key:
  "\<forall>c \<in> set cs. get_today_key (c 0) = K \<Longrightarrow>
   dict_get (daily (increments cs u)) K 0 = dict_get (daily u) K 0 + int (length cs)"
proof (induction cs arbitrary: u)
  case Nil
  show ?case by simp
next
  case (Cons c cs)
  have "dict_get (daily (increments cs (snd (increment_usage c u)))) K 0 =
        dict_get (daily (snd (increment_usage c u))) K 0 + int (length cs)"
    using Cons.prems by (intro Cons.IH) simp
  moreover have "dict_get (daily (snd (increment_usage c u))) K 0 = dict_get (daily u) K 0 + 1"
    using Cons.prems by (simp add: snd_increment_usage dict_get_def)
  ultimately show ?case by simp
qed

lemma daily_count_run:
  assumes "py_date D" and "\<forall>c \<in> set cs. py_date (c 0)"
  shows "dict_get (daily (increments cs u)) (get_today_key D) 0 =
         dict_get (daily u) (get_today_key D) 0 + int (length (filter (\<lambda>c. c 0 = D) cs))"
  using assms(2)
proof (induction cs arbitrary: u)
  case Nil
  show ?case by simp
next
  case (Cons c cs)
  from Cons.prems have c: "py_date (c 0)" and rest: "\<forall>c \<in> set cs. py_date (c 0)" by simp_all
  have key: "get_today_key (c 0) = get_today_key D \<longleftrightarrow> c 0 = D"
    using today_key_inj [OF c assms(1)] by auto
  have step: "dict_get (daily (snd (increment_usage c u))) (get_today_key D) 0 =
              dict_get (daily u) (get_today_key D) 0 + (if c 0 = D then 1 else 0)"
    using key by (auto simp: snd_increment_usage dict_get_def)
  have "dict_get (daily (increments cs (snd (increment_usage c u)))) (get_today_key D) 0 =
        dict_get (daily (snd (increment_usage c u))) (get_today_key D) 0 +
        int (length (filter (\<lambda>c. c 0 = D) cs))"
    using rest by (rule Cons.IH)
  with step show ?case by simp
qed

lemma monthly_count_run:
  "dict_get (monthly (increments cs u)) M 0 =
   dict_get (monthly u) M 0 + int (length (filter (\<lambda>c. get_month_key (c 1) = M) cs))"
proof (induction cs arbitrary: u)
  case Nil
  show ?case by simp
next
  case (Cons c cs)
  have step: "dict_get (monthly (snd (increment_usage c u))) M 0 =
              dict_get (monthly u) M 0 + (if get_month_key (c 1) = M then 1 else 0)"
    by (auto simp: snd_increment_usage dict_get_def)
  have "dict_get (monthly (increments cs (snd (increment_usage c u)))) M 0 =
        dict_get (monthly (snd (increment_usage c u))) M 0 +
        int (length (filter (\<lambda>c. get_month_key (c 1) = M) cs))"
    by (rule Cons.IH)
  with step show ?case by simp
qed

lemma today_snapshot: "today (fst (get_usage_stats (fixed_clock d) u)) = dict_get (daily u) (get_today_key d) 0"
  by (simp add: get_usage_stats_def Let_def)

lemma month_snapshot: "month (fst (get_usage_stats (fixed_clock d) u)) = dict_get (monthly u) (get_month_key d) 0"
  by (simp add: get_usage_stats_def Let_def)

subsection \<open>The handlers\<close>

lemma get_ratings_relay:
  "CBBD_API_KEY cfg \<noteq> [] \<Longrightarrow>
   get_ratings cfg args net clk u = counted_relay (ratings_call cfg args) net clk u"
  by (simp add: get_ratings_def counted_relay_def ratings_call_def Let_def)

lemma get_games_relay:
  "CBBD_API_KEY cfg \<noteq> [] \<Longrightarrow>
   get_games cfg args net clk u = counted_relay (games_call cfg args) net clk u"
  by (simp add: get_games_def counted_relay_def games_call_def Let_def)

lemma get_teams_relay:
  "CBBD_API_KEY cfg \<noteq> [] \<Longrightarrow> get_teams cfg net clk u = counted_relay (teams_call cfg) net clk u"
  by (simp add: get_teams_def counted_relay_def teams_call_def Let_def)

lemma get_odds_relay:
  "ODDS_API_KEY cfg \<noteq> [] \<Longrightarrow> get_odds cfg net u = plain_relay (odds_call cfg) net u"
  by (simp add: get_odds_def plain_relay_def odds_call_def Let_def split: upstream.split sum.split)

lemma unconfigured_cbbd:
  "CBBD_API_KEY cfg = [] \<Longrightarrow>
     get_ratings cfg args net clk u =
       \<lparr>response = (error_body ''CBBD_API_KEY not configured'', 500), ledger_after = u, calls = []\<rparr> \<and>
     get_games cfg args net clk u =
       \<lparr>response = (error_body ''CBBD_API_KEY not configured'', 500), ledger_after = u, calls = []\<rparr> \<and>
     get_teams cfg net clk u =
       \<lparr>response = (error_body ''CBBD_API_KEY not configured'', 500), ledger_after = u, calls = []\<rparr>"
  by (simp add: get_ratings_def get_games_def get_teams_def)

lemma unconfigured_odds:
  "ODDS_API_KEY cfg = [] \<Longrightarrow>
     get_odds cfg net u =
       \<lparr>response = (error_body ''ODDS_API_KEY not configured'', 500), ledger_after = u, calls = []\<rparr>"
  by (simp add: get_odds_def)

lemma quota_counted_relay: "quota_counted net clk u (counted_relay req net clk u)"
  by (simp add: quota_counted_def upstream_answer_def counted_relay_def
      split: upstream.split sum.split prod.split)

lemma counted_relay_error:
  "upstream_answer net (counted_relay req net clk u) = Some (Response code body) \<Longrightarrow> code \<noteq> 200 \<Longrightarrow>
   response (counted_relay req net clk u) = (error_body (''API returned '' @ str_int code), code)"
  by (simp add: upstream_answer_def counted_relay_def split: upstream.splits sum.splits prod.splits if_splits)

lemma plain_relay_error:
  "upstream_answer net (plain_relay req net u) = Some (Response code (Inr j)) \<Longrightarrow>
   response (plain_relay req net u) = (j, code)"
  by (simp add: upstream_answer_def plain_relay_def split: upstream.splits sum.splits)

lemma ledger_after_plain_relay: "ledger_after (plain_relay req net u) = u"
  by (simp add: plain_relay_def split: upstream.split sum.split)

lemma ratings_success:
  "CBBD_API_KEY cfg \<noteq> [] \<Longrightarrow>
   ledger_after (get_ratings cfg args (upstream_always (Response 200 (Inr j))) clk u) =
     snd (increment_usage clk u)"
  by (simp add: get_ratings_relay counted_relay_def upstream_always_def split: prod.split)

subsection \<open>The invariant of a run\<close>

lemma month_total_alt:
  assumes "finite A" and "dom m \<subseteq> A"
  shows "month_total m M = (\<Sum>k \<in> A. if month_of_day_key k = M then dict_get m k 0 else 0)"
proof -
  have "month_total m M =
        (\<Sum>k \<in> {k \<in> dom m. month_of_day_key k = M}.
           if month_of_day_key k = M then dict_get m k 0 else 0)"
    unfolding month_total_def by (rule sum.cong) (auto simp: dict_get_def)
  also have "\<dots> = (\<Sum>k \<in> A. if month_of_day_key k = M then dict_get m k 0 else 0)"
    using assms by (intro sum.mono_neutral_left) (auto simp: dict_get_def split: option.splits)
  finally show ?thesis .
qed

lemma month_total_bump:
  assumes "finite (dom m)"
  shows "month_total (m(K \<mapsto> dict_get m K 0 + 1)) M =
         month_total m M + (if month_of_day_key K = M then 1 else 0)"
proof -
  let ?A = "insert K (dom m)"
  let ?m' = "m(K \<mapsto> dict_get m K 0 + 1)"
  have fin: "finite ?A" using assms by simp
  have "month_total ?m' M = (\<Sum>k \<in> ?A. if month_of_day_key k = M then dict_get ?m' k 0 else 0)"
    using fin by (intro month_total_alt) auto
  also have "\<dots> = (\<Sum>k \<in> ?A. (if month_of_day_key k = M then dict_get m k 0 else 0) +
                        (if k = K then (if month_of_day_key K = M then 1 else 0) else 0))"
    by (rule sum.cong) (auto simp: dict_get_def)
  also have "\<dots> = (\<Sum>k \<in> ?A. if month_of_day_key k = M then dict_get m k 0 else 0) +
                  (if month_of_day_key K = M then 1 else 0)"
    using fin by (simp add: sum.distrib)
  also have "(\<Sum>k \<in> ?A. if month_of_day_key k = M then dict_get m k 0 else 0) = month_total m M"
    using fin by (intro month_total_alt [symmetric]) auto
  finally show ?thesis .
qed

lemma strong_inv_init: "strong_inv usage_data"
  by (simp add: strong_inv_def usage_data_def dict_get_def month_total_def)

lemma dict_get_nonneg: "\<forall>k c. m k = Some c \<longrightarrow> 1 \<le> c \<Longrightarrow> 0 \<le> dict_get m K (0::int)"
proof (cases "m K")
  case None
  then show ?thesis by (simp add: dict_get_def)
next
  case (Some x)
  assume "\<forall>k c. m k = Some c \<longrightarrow> 1 \<le> c"
  with Some have "1 \<le> x" by blast
  with Some show ?thesis by (simp add: dict_get_def)
qed

lemma strong_inv_step:
  assumes inv: "strong_inv u" and same: "c 0 = c 1" and ok: "py_date (c 0)"
  shows "strong_inv (snd (increment_usage c u))"
proof -
  let ?K = "get_today_key (c 0)" and ?M = "get_month_key (c 1)"
  have km: "month_of_day_key ?K = ?M"
    using month_key_of_today_key [OF ok] same by (simp add: month_of_day_key_def)
  have fin: "finite (dom (daily u))" using inv by (simp add: strong_inv_def)
  have pos: "\<forall>k x. daily u k = Some x \<longrightarrow> 1 \<le> x" "\<forall>k x. monthly u k = Some x \<longrightarrow> 1 \<le> x"
    using inv unfolding strong_inv_def by blast+
  have d0: "0 \<le> dict_get (daily u) ?K 0" and m0: "0 \<le> dict_get (monthly u) ?M 0"
    using pos by (simp_all only: dict_get_nonneg)
  have tot: "\<And>M. dict_get (monthly u) M 0 = month_total (daily u) M"
    using inv by (simp add: strong_inv_def)
  have "\<And>M. dict_get ((monthly u)(?M \<mapsto> dict_get (monthly u) ?M 0 + 1)) M 0 =
          month_total ((daily u)(?K \<mapsto> dict_get (daily u) ?K 0 + 1)) M"
    by (simp add: month_total_bump [OF fin] km tot [symmetric]) (simp add: dict_get_def)
  moreover have "\<forall>k x. ((daily u)(?K \<mapsto> dict_get (daily u) ?K 0 + 1)) k = Some x \<longrightarrow> 1 \<le> x"
    using pos d0 by auto
  moreover have "\<forall>k x. ((monthly u)(?M \<mapsto> dict_get (monthly u) ?M 0 + 1)) k = Some x \<longrightarrow> 1 \<le> x"
    using pos m0 by auto
  ultimately show ?thesis
    using fin by (simp add: strong_inv_def snd_increment_usage)
qed

lemma strong_inv_increments:
  "strong_inv u \<Longrightarrow> \<forall>c \<in> set cs. c 0 = c 1 \<and> py_date (c 0) \<Longrightarrow> strong_inv (increments cs u)"
proof (induction cs arbitrary: u)
  case Nil
  then show ?case by simp
next
  case (Cons c cs)
  from Cons.prems have "c 0 = c 1" and "py_date (c 0)" by auto
  with Cons.prems have "strong_inv (snd (increment_usage c u))"
    by (intro strong_inv_step)
  moreover from Cons.prems have "\<forall>c \<in> set cs. c 0 = c 1 \<and> py_date (c 0)" by simp
  ultimately show ?case using Cons.IH by simp
qed

lemma strong_inv_ledger_inv: "strong_inv u \<Longrightarrow> ledger_inv u"
  unfolding strong_inv_def ledger_inv_def
  by (auto simp: ran_def dict_get_def split: option.splits)

section \<open>The usage ledger\<close>

text \<open>
  Claim C1. After a sequence of \<open>N\<close> calls of \<^verbatim>\<open>increment_usage()\<close> that all fall on the
  day-key \<open>K\<close>, started on any ledger with no entry for \<open>K\<close>, a \<^verbatim>\<open>get_usage_stats()\<close> on
  the same day-key reports \<open>today = N\<close>. In particular, with the daily limit of 100, three
  ratings calls that the upstream answers with status 200 and a JSON body, made on the
  empty ledger on one day, followed by \<^verbatim>\<open>/api/usage\<close>, give
  \<^verbatim>\<open>{today: 3, todayRemaining: 97, month: 3, dailyLimit: 100}\<close>.
\<close>

theorem increments_then_snapshot:
  "(daily u K = None \<and> (\<forall>c \<in> set cs. get_today_key (c 0) = K) \<and> get_today_key (clk 0) = K \<longrightarrow>
      today (fst (get_usage_stats clk (increments cs u))) = int (length cs)) \<and>
   (CBBD_API_KEY cfg \<noteq> [] \<longrightarrow>
      response
        (usage (fixed_clock d)
          (ledger_after (get_ratings cfg a3 (upstream_always (Response 200 (Inr j3))) (fixed_clock d)
            (ledger_after (get_ratings cfg a2 (upstream_always (Response 200 (Inr j2))) (fixed_clock d)
              (ledger_after (get_ratings cfg a1 (upstream_always (Response 200 (Inr j1))) (fixed_clock d)
                usage_data)))))))
      = (JObject [(''today'', JInt 3), (''todayRemaining'', JInt 97), (''month'', JInt 3),
                  (''dailyLimit'', JInt 100)], 200))"
proof (intro conjI impI)
  assume a: "daily u K = None \<and> (\<forall>c \<in> set cs. get_today_key (c 0) = K) \<and> get_today_key (clk 0) = K"
  then have "dict_get (daily (increments cs u)) K 0 = dict_get (daily u) K 0 + int (length cs)"
    by (intro daily_increments_same_key) simp
  with a show "today (fst (get_usage_stats clk (increments cs u))) = int (length cs)"
    by (simp add: get_usage_stats_def Let_def dict_get_def)
next
  assume k: "CBBD_API_KEY cfg \<noteq> []"
  show "response
        (usage (fixed_clock d)
          (ledger_after (get_ratings cfg a3 (upstream_always (Response 200 (Inr j3))) (fixed_clock d)
            (ledger_after (get_ratings cfg a2 (upstream_always (Response 200 (Inr j2))) (fixed_clock d)
              (ledger_after (get_ratings cfg a1 (upstream_always (Response 200 (Inr j1))) (fixed_clock d)
                usage_data)))))))
      = (JObject [(''today'', JInt 3), (''todayRemaining'', JInt 97), (''month'', JInt 3),
                  (''dailyLimit'', JInt 100)], 200)"
    by (simp add: ratings_success [OF k] snd_increment_usage usage_def get_usage_stats_def Let_def
        dict_get_def usage_data_def stats_body_def DAILY_LIMIT_def)
qed

theorem increments_then_snapshot_witness:
  "daily usage_data ''2026-11-04'' = None \<and>
   get_today_key \<lparr>d_year = 2026, d_month = 11, d_day = 4\<rparr> = ''2026-11-04'' \<and>
   today (fst (get_usage_stats (fixed_clock \<lparr>d_year = 2026, d_month = 11, d_day = 4\<rparr>)
     (increments [fixed_clock \<lparr>d_year = 2026, d_month = 11, d_day = 4\<rparr>,
                  fixed_clock \<lparr>d_year = 2026, d_month = 11, d_day = 4\<rparr>] usage_data))) = 2 \<and>
   CBBD_API_KEY \<lparr>CBBD_API_KEY = ''k1'', ODDS_API_KEY = ''k2''\<rparr> \<noteq> [] \<and>
   response
     (usage (fixed_clock \<lparr>d_year = 2026, d_month = 11, d_day = 4\<rparr>)
       (ledger_after (get_ratings \<lparr>CBBD_API_KEY = ''k1'', ODDS_API_KEY = ''k2''\<rparr> []
           (upstream_always (Response 200 (Inr (JArray []))))
           (fixed_clock \<lparr>d_year = 2026, d_month = 11, d_day = 4\<rparr>)
         (ledger_after (get_ratings \<lparr>CBBD_API_KEY = ''k1'', ODDS_API_KEY = ''k2''\<rparr> []
             (upstream_always (Response 200 (Inr (JArray []))))
             (fixed_clock \<lparr>d_year = 2026, d_month = 11, d_day = 4\<rparr>)
           (ledger_after (get_ratings \<lparr>CBBD_API_KEY = ''k1'', ODDS_API_KEY = ''k2''\<rparr> []
               (upstream_always (Response 200 (Inr (JArray []))))
               (fixed_clock \<lparr>d_year = 2026, d_month = 11, d_day = 4\<rparr>)
             usage_data)))))))
     = (JObject [(''today'', JInt 3), (''todayRemaining'', JInt 97), (''month'', JInt 3),
                 (''dailyLimit'', JInt 100)], 200)"
  using increments_then_snapshot [where u = usage_data and K = "''2026-11-04''"
      and cs = "[fixed_clock \<lparr>d_year = 2026, d_month = 11, d_day = 4\<rparr>,
                 fixed_clock \<lparr>d_year = 2026, d_month = 11, d_day = 4\<rparr>]"
      and clk = "fixed_clock \<lparr>d_year = 2026, d_month = 11, d_day = 4\<rparr>"
      and cfg = "\<lparr>CBBD_API_KEY = ''k1'', ODDS_API_KEY = ''k2''\<rparr>"
      and d = "\<lparr>d_year = 2026, d_month = 11, d_day = 4\<rparr>"
      and ?a1.0 = "[]" and ?a2.0 = "[]" and ?a3.0 = "[]"
      and ?j1.0 = "JArray []" and ?j2.0 = "JArray []" and ?j3.0 = "JArray []"]
  by (simp add: usage_data_def key_eval)

text \<open>
  Claim C2. On every ledger, reachable or not, also one whose count for the current day
  is above the limit, \<^verbatim>\<open>get_usage_stats()\<close> returns
  \<open>todayRemaining = max 0 (dailyLimit - today)\<close>, where \<open>today\<close> is the count stored under
  the current day-key, 0 when the key is absent, and \<open>dailyLimit\<close> is the constant.
\<close>

theorem todayRemaining_floor:
  "todayRemaining (fst (get_usage_stats clk u)) =
     max 0 (dailyLimit (fst (get_usage_stats clk u)) - today (fst (get_usage_stats clk u))) \<and>
   today (fst (get_usage_stats clk u)) =
     (case daily u (get_today_key (clk 0)) of None \<Rightarrow> 0 | Some c \<Rightarrow> c) \<and>
   dailyLimit (fst (get_usage_stats clk u)) = DAILY_LIMIT"
  by (simp add: get_usage_stats_def Let_def dict_get_def)

text \<open>
  Claim C3. One \<^verbatim>\<open>increment_usage()\<close> stores, under the current day-key and under the
  current month-key, 1 when the key was absent and the old count plus 1 when it was
  present, changes nothing else, and returns what \<^verbatim>\<open>get_usage_stats()\<close> returns on the
  updated ledger. The first equation is for any clock (the snapshot is taken with the
  clock's next reads), the second for a call that sees one date \<open>d\<close> throughout.
\<close>

theorem increment_usage_effect:
  "increment_usage clk u =
     get_usage_stats (later 2 clk)
       \<lparr>daily = (daily u)(get_today_key (clk 0) \<mapsto>
                  (case daily u (get_today_key (clk 0)) of None \<Rightarrow> 1 | Some c \<Rightarrow> c + 1)),
        monthly = (monthly u)(get_month_key (clk 1) \<mapsto>
                  (case monthly u (get_month_key (clk 1)) of None \<Rightarrow> 1 | Some c \<Rightarrow> c + 1))\<rparr> \<and>
   increment_usage (fixed_clock d) u =
     get_usage_stats (fixed_clock d)
       \<lparr>daily = (daily u)(get_today_key d \<mapsto>
                  (case daily u (get_today_key d) of None \<Rightarrow> 1 | Some c \<Rightarrow> c + 1)),
        monthly = (monthly u)(get_month_key d \<mapsto>
                  (case monthly u (get_month_key d) of None \<Rightarrow> 1 | Some c \<Rightarrow> c + 1))\<rparr>"
  by (cases u) (simp add: increment_usage_def Let_def dict_get_def split: option.splits)

text \<open>
  Claim C9. \<^verbatim>\<open>get_usage_stats()\<close> leaves the ledger as it found it, so do the two
  endpoints that only report it, and a second snapshot taken with the same clock
  readings and no increment in between returns the same values.
\<close>

theorem snapshot_is_read_only:
  "snd (get_usage_stats clk u) = u \<and>
   fst (get_usage_stats clk (snd (get_usage_stats clk u))) = fst (get_usage_stats clk u) \<and>
   ledger_after (usage clk u) = u \<and> ledger_after (health clk u) = u"
  by (simp add: usage_def health_def split: prod.splits) (simp add: get_usage_stats_def Let_def)

text \<open>
  Claim C8. Let \<open>D\<close> be a date of Python with a next day \<open>D' = next_day D\<close>, in the same
  month or in the next one, and take any ledger reached from the empty one by increments
  none of which read \<open>D'\<close> as its day (no increment has happened under \<open>D'\<close> yet; any
  number of them under \<open>D\<close> and under other days). The day-key of \<open>D'\<close> is a new one, so the
  snapshot taken at \<open>D'\<close> reports \<open>today = 0\<close>; the count stored for \<open>D\<close> is the number of
  increments made under \<open>D\<close>, and the snapshot leaves it as it is; the month count reported
  is the number of increments made under the month-key of \<open>D'\<close>, and when \<open>D\<close> and \<open>D'\<close> have
  the same month-key it is the month count that the snapshot at \<open>D\<close> reports.
\<close>

theorem day_rollover:
  assumes D: "py_date D" and last: "D \<noteq> \<lparr>d_year = 9999, d_month = 12, d_day = 31\<rparr>"
    and run: "\<forall>c \<in> set cs. py_date (c 0) \<and> c 0 \<noteq> next_day D"
  shows "get_today_key (next_day D) \<noteq> get_today_key D \<and>
         today (fst (get_usage_stats (fixed_clock (next_day D)) (increments cs usage_data))) = 0 \<and>
         daily (snd (get_usage_stats (fixed_clock (next_day D)) (increments cs usage_data)))
             (get_today_key D) =
           daily (increments cs usage_data) (get_today_key D) \<and>
         dict_get (daily (increments cs usage_data)) (get_today_key D) 0 =
           int (length (filter (\<lambda>c. c 0 = D) cs)) \<and>
         month (fst (get_usage_stats (fixed_clock (next_day D)) (increments cs usage_data))) =
           int (length (filter (\<lambda>c. get_month_key (c 1) = get_month_key (next_day D)) cs)) \<and>
         (get_month_key (next_day D) = get_month_key D \<longrightarrow>
            month (fst (get_usage_stats (fixed_clock (next_day D)) (increments cs usage_data))) =
            month (fst (get_usage_stats (fixed_clock D) (increments cs usage_data))))"
proof -
  have D': "py_date (next_day D)" using D last by (rule py_date_next_day)
  have valid: "\<forall>c \<in> set cs. py_date (c 0)" using run by simp
  have none: "filter (\<lambda>c. c 0 = next_day D) cs = []"
    using run by (simp add: filter_empty_conv)
  have "get_today_key (next_day D) \<noteq> get_today_key D"
    using today_key_inj [OF D' D] next_day_neq [of D] by blast
  moreover have "today (fst (get_usage_stats (fixed_clock (next_day D)) (increments cs usage_data))) = 0"
    using daily_count_run [OF D' valid, of usage_data] none
    by (simp add: today_snapshot) (simp add: usage_data_def dict_get_def)
  moreover have "dict_get (daily (increments cs usage_data)) (get_today_key D) 0 =
      int (length (filter (\<lambda>c. c 0 = D) cs))"
    using daily_count_run [OF D valid, of usage_data] by (simp add: usage_data_def dict_get_def)
  moreover have "month (fst (get_usage_stats (fixed_clock (next_day D)) (increments cs usage_data))) =
      int (length (filter (\<lambda>c. get_month_key (c 1) = get_month_key (next_day D)) cs))"
    using monthly_count_run [of cs usage_data "get_month_key (next_day D)"]
    by (simp add: month_snapshot) (simp add: usage_data_def dict_get_def)
  ultimately show ?thesis by (simp add: month_snapshot)
qed

theorem day_rollover_witness:
  "py_date \<lparr>d_year = 2026, d_month = 11, d_day = 4\<rparr> \<and>
   next_day \<lparr>d_year = 2026, d_month = 11, d_day = 4\<rparr> = \<lparr>d_year = 2026, d_month = 11, d_day = 5\<rparr> \<and>
   get_month_key (next_day \<lparr>d_year = 2026, d_month = 11, d_day = 4\<rparr>) =
     get_month_key \<lparr>d_year = 2026, d_month = 11, d_day = 4\<rparr> \<and>
   get_today_key (next_day \<lparr>d_year = 2026, d_month = 11, d_day = 4\<rparr>) \<noteq>
     get_today_key \<lparr>d_year = 2026, d_month = 11, d_day = 4\<rparr> \<and>
   today (fst (get_usage_stats (fixed_clock (next_day \<lparr>d_year = 2026, d_month = 11, d_day = 4\<rparr>))
     (increments [fixed_clock \<lparr>d_year = 2026, d_month = 11, d_day = 3\<rparr>,
                  fixed_clock \<lparr>d_year = 2026, d_month = 11, d_day = 4\<rparr>,
                  fixed_clock \<lparr>d_year = 2026, d_month = 11, d_day = 4\<rparr>] usage_data))) = 0 \<and>
   daily (snd (get_usage_stats (fixed_clock (next_day \<lparr>d_year = 2026, d_month = 11, d_day = 4\<rparr>))
     (increments [fixed_clock \<lparr>d_year = 2026, d_month = 11, d_day = 3\<rparr>,
                  fixed_clock \<lparr>d_year = 2026, d_month = 11, d_day = 4\<rparr>,
                  fixed_clock \<lparr>d_year = 2026, d_month = 11, d_day = 4\<rparr>] usage_data)))
     ''2026-11-04'' = Some 2 \<and>
   month (fst (get_usage_stats (fixed_clock (next_day \<lparr>d_year = 2026, d_month = 11, d_day = 4\<rparr>))
     (increments [fixed_clock \<lparr>d_year = 2026, d_month = 11, d_day = 3\<rparr>,
                  fixed_clock \<lparr>d_year = 2026, d_month = 11, d_day = 4\<rparr>,
                  fixed_clock \<lparr>d_year = 2026, d_month = 11, d_day = 4\<rparr>] usage_data))) = 3"
  using day_rollover
    [of "\<lparr>d_year = 2026, d_month = 11, d_day = 4\<rparr>"
        "[fixed_clock \<lparr>d_year = 2026, d_month = 11, d_day = 3\<rparr>,
          fixed_clock \<lparr>d_year = 2026, d_month = 11, d_day = 4\<rparr>,
          fixed_clock \<lparr>d_year = 2026, d_month = 11, d_day = 4\<rparr>]"]
  by (simp add: py_date_def days_in_month_def is_leap_def next_day_def snd_increment_usage
      usage_data_def key_eval dict_get_def get_usage_stats_def Let_def)

text \<open>
  Claim C10. Start from the empty ledger and run any sequence of \<^verbatim>\<open>increment_usage()\<close>
  calls, each of which reads one date of Python for its day-key and its month-key. In
  the ledger reached, every stored daily and monthly count is at least 1, and the count
  of every month-key present is the sum of the daily counts of the day-keys of that
  month.
\<close>

theorem ledger_invariant:
  "\<forall>c \<in> set cs. c 0 = c 1 \<and> py_date (c 0) \<Longrightarrow> ledger_inv (increments cs usage_data)"
  by (intro strong_inv_ledger_inv strong_inv_increments strong_inv_init)

theorem ledger_invariant_witness:
  "py_date \<lparr>d_year = 2026, d_month = 11, d_day = 30\<rparr> \<and>
   py_date \<lparr>d_year = 2026, d_month = 12, d_day = 1\<rparr> \<and>
   ledger_inv (increments [fixed_clock \<lparr>d_year = 2026, d_month = 11, d_day = 30\<rparr>,
                           fixed_clock \<lparr>d_year = 2026, d_month = 11, d_day = 30\<rparr>,
                           fixed_clock \<lparr>d_year = 2026, d_month = 12, d_day = 1\<rparr>] usage_data) \<and>
   increments [fixed_clock \<lparr>d_year = 2026, d_month = 11, d_day = 30\<rparr>,
               fixed_clock \<lparr>d_year = 2026, d_month = 11, d_day = 30\<rparr>,
               fixed_clock \<lparr>d_year = 2026, d_month = 12, d_day = 1\<rparr>] usage_data =
     \<lparr>daily = [''2026-11-30'' \<mapsto> 2, ''2026-12-01'' \<mapsto> 1],
      monthly = [''2026-11'' \<mapsto> 2, ''2026-12'' \<mapsto> 1]\<rparr>"
  using ledger_invariant
    [of "[fixed_clock \<lparr>d_year = 2026, d_month = 11, d_day = 30\<rparr>,
          fixed_clock \<lparr>d_year = 2026, d_month = 11, d_day = 30\<rparr>,
          fixed_clock \<lparr>d_year = 2026, d_month = 12, d_day = 1\<rparr>]"]
  by (simp add: py_date_def days_in_month_def is_leap_def snd_increment_usage usage_data_def
      key_eval dict_get_def)

section \<open>The request router\<close>

text \<open>
  Claim C4. With the statistics credential configured, each of the ratings, games and
  teams handlers makes one outbound call; when the upstream answers it with status 200
  the ledger after the handler is the ledger after one \<^verbatim>\<open>increment_usage()\<close> (also when
  the body then fails to parse), and on any other status or a raised exception the
  ledger is unchanged and the response is the error result.
\<close>

theorem counted_endpoints_increment_on_200:
  assumes "CBBD_API_KEY cfg \<noteq> []"
  shows "quota_counted net clk u (get_ratings cfg args net clk u) \<and>
         quota_counted net clk u (get_games cfg args net clk u) \<and>
         quota_counted net clk u (get_teams cfg net clk u)"
  using assms by (simp add: get_ratings_relay get_games_relay get_teams_relay quota_counted_relay)

theorem counted_endpoints_increment_on_200_witness:
  "CBBD_API_KEY \<lparr>CBBD_API_KEY = ''k1'', ODDS_API_KEY = ''k2''\<rparr> \<noteq> [] \<and>
   quota_counted (upstream_always (Response 404 (Inr JNull)))
     (fixed_clock \<lparr>d_year = 2026, d_month = 11, d_day = 4\<rparr>) usage_data
     (get_teams \<lparr>CBBD_API_KEY = ''k1'', ODDS_API_KEY = ''k2''\<rparr>
        (upstream_always (Response 404 (Inr JNull)))
        (fixed_clock \<lparr>d_year = 2026, d_month = 11, d_day = 4\<rparr>) usage_data) \<and>
   get_teams \<lparr>CBBD_API_KEY = ''k1'', ODDS_API_KEY = ''k2''\<rparr>
        (upstream_always (Response 404 (Inr JNull)))
        (fixed_clock \<lparr>d_year = 2026, d_month = 11, d_day = 4\<rparr>) usage_data
     = \<lparr>response = (JObject [(''error'', JString ''API returned 404'')], 404),
        ledger_after = usage_data,
        calls = [\<lparr>url = ''https://api.collegebasketballdata.com/teams'', params = [],
                  headers = [(''Authorization'', ''Bearer k1''),
                             (''Content-Type'', ''application/json'')],
                  timeout = 30\<rparr>]\<rparr> \<and>
   ledger_after (get_games \<lparr>CBBD_API_KEY = ''k1'', ODDS_API_KEY = ''k2''\<rparr> []
        (upstream_always (Response 200 (Inr JNull)))
        (fixed_clock \<lparr>d_year = 2026, d_month = 11, d_day = 4\<rparr>) usage_data)
     = \<lparr>daily = [''2026-11-04'' \<mapsto> 1], monthly = [''2026-11'' \<mapsto> 1]\<rparr>"
  using counted_endpoints_increment_on_200
    [of "\<lparr>CBBD_API_KEY = ''k1'', ODDS_API_KEY = ''k2''\<rparr>"
      "upstream_always (Response 404 (Inr JNull))"
      "fixed_clock \<lparr>d_year = 2026, d_month = 11, d_day = 4\<rparr>" usage_data "[]"]
  by (simp add: get_teams_relay get_games_relay counted_relay_def teams_call_def games_call_def
      upstream_always_def error_body_def str_int_def CBBD_API_BASE_def snd_increment_usage
      usage_data_def dict_get_def key_eval case_prod_beta)

text \<open>
  Claim C5, as the code has it. The odds handler relays a non-200 upstream response with
  a JSON body as it is: the upstream's status code and body. The ratings, games and
  teams handlers answer every non-200 upstream response with the upstream's status code
  and the body \<^verbatim>\<open>{error: "API returned <code>"}\<close>, whatever body the upstream sent. The
  claim as written (every endpoint relays the upstream's JSON error body) fails on a teams
  call whose upstream returns 404 with the body \<^verbatim>\<open>{message: "Not Found"}\<close>.
\<close>

theorem upstream_error_bodies:
  "(upstream_answer net (get_odds cfg net u) = Some (Response code (Inr j)) \<and> code \<noteq> 200 \<longrightarrow>
      response (get_odds cfg net u) = (j, code)) \<and>
   (upstream_answer net (get_ratings cfg args net clk u) = Some (Response code body) \<and> code \<noteq> 200 \<longrightarrow>
      response (get_ratings cfg args net clk u) =
        (JObject [(''error'', JString (''API returned '' @ str_int code))], code)) \<and>
   (upstream_answer net (get_games cfg args net clk u) = Some (Response code body) \<and> code \<noteq> 200 \<longrightarrow>
      response (get_games cfg args net clk u) =
        (JObject [(''error'', JString (''API returned '' @ str_int code))], code)) \<and>
   (upstream_answer net (get_teams cfg net clk u) = Some (Response code body) \<and> code \<noteq> 200 \<longrightarrow>
      response (get_teams cfg net clk u) =
        (JObject [(''error'', JString (''API returned '' @ str_int code))], code))"
proof (intro conjI impI)
  assume a: "upstream_answer net (get_odds cfg net u) = Some (Response code (Inr j)) \<and> code \<noteq> 200"
  then have "ODDS_API_KEY cfg \<noteq> []"
    by (auto simp: unconfigured_odds upstream_answer_def)
  with a show "response (get_odds cfg net u) = (j, code)"
    by (simp add: get_odds_relay plain_relay_error)
next
  assume a: "upstream_answer net (get_ratings cfg args net clk u) = Some (Response code body) \<and> code \<noteq> 200"
  then have "CBBD_API_KEY cfg \<noteq> []"
    by (auto simp: unconfigured_cbbd upstream_answer_def)
  with a show "response (get_ratings cfg args net clk u) =
        (JObject [(''error'', JString (''API returned '' @ str_int code))], code)"
    using counted_relay_error [of net "ratings_call cfg args" clk u code body]
    by (simp add: get_ratings_relay error_body_def)
next
  assume a: "upstream_answer net (get_games cfg args net clk u) = Some (Response code body) \<and> code \<noteq> 200"
  then have "CBBD_API_KEY cfg \<noteq> []"
    by (auto simp: unconfigured_cbbd upstream_answer_def)
  with a show "response (get_games cfg args net clk u) =
        (JObject [(''error'', JString (''API returned '' @ str_int code))], code)"
    using counted_relay_error [of net "games_call cfg args" clk u code body]
    by (simp add: get_games_relay error_body_def)
next
  assume a: "upstream_answer net (get_teams cfg net clk u) = Some (Response code body) \<and> code \<noteq> 200"
  then have "CBBD_API_KEY cfg \<noteq> []"
    by (auto simp: unconfigured_cbbd upstream_answer_def)
  with a show "response (get_teams cfg net clk u) =
        (JObject [(''error'', JString (''API returned '' @ str_int code))], code)"
    using counted_relay_error [of net "teams_call cfg" clk u code body]
    by (simp add: get_teams_relay error_body_def)
qed

theorem upstream_error_bodies_witness:
  "upstream_answer (upstream_always (Response 404 (Inr (JObject [(''message'', JString ''Not Found'')]))))
     (get_odds \<lparr>CBBD_API_KEY = ''k1'', ODDS_API_KEY = ''k2''\<rparr>
        (upstream_always (Response 404 (Inr (JObject [(''message'', JString ''Not Found'')]))))
        usage_data)
     = Some (Response 404 (Inr (JObject [(''message'', JString ''Not Found'')]))) \<and>
   response (get_odds \<lparr>CBBD_API_KEY = ''k1'', ODDS_API_KEY = ''k2''\<rparr>
        (upstream_always (Response 404 (Inr (JObject [(''message'', JString ''Not Found'')]))))
        usage_data)
     = (JObject [(''message'', JString ''Not Found'')], 404) \<and>
   upstream_answer (upstream_always (Response 404 (Inr (JObject [(''message'', JString ''Not Found'')]))))
     (get_ratings \<lparr>CBBD_API_KEY = ''k1'', ODDS_API_KEY = ''k2''\<rparr> [(''season'', ''2025'')]
        (upstream_always (Response 404 (Inr (JObject [(''message'', JString ''Not Found'')]))))
        (fixed_clock \<lparr>d_year = 2026, d_month = 11, d_day = 4\<rparr>) usage_data)
     = Some (Response 404 (Inr (JObject [(''message'', JString ''Not Found'')]))) \<and>
   response (get_ratings \<lparr>CBBD_API_KEY = ''k1'', ODDS_API_KEY = ''k2''\<rparr> [(''season'', ''2025'')]
        (upstream_always (Response 404 (Inr (JObject [(''message'', JString ''Not Found'')]))))
        (fixed_clock \<lparr>d_year = 2026, d_month = 11, d_day = 4\<rparr>) usage_data)
     = (JObject [(''error'', JString ''API returned 404'')], 404) \<and>
   response (get_games \<lparr>CBBD_API_KEY = ''k1'', ODDS_API_KEY = ''k2''\<rparr> [(''season'', ''2025'')]
        (upstream_always (Response 404 (Inr (JObject [(''message'', JString ''Not Found'')]))))
        (fixed_clock \<lparr>d_year = 2026, d_month = 11, d_day = 4\<rparr>) usage_data)
     = (JObject [(''error'', JString ''API returned 404'')], 404) \<and>
   response (get_teams \<lparr>CBBD_API_KEY = ''k1'', ODDS_API_KEY = ''k2''\<rparr>
        (upstream_always (Response 404 (Inr (JObject [(''message'', JString ''Not Found'')]))))
        (fixed_clock \<lparr>d_year = 2026, d_month = 11, d_day = 4\<rparr>) usage_data)
     = (JObject [(''error'', JString ''API returned 404'')], 404)"
  using upstream_error_bodies
    [of "upstream_always (Response 404 (Inr (JObject [(''message'', JString ''Not Found'')])))"
      "\<lparr>CBBD_API_KEY = ''k1'', ODDS_API_KEY = ''k2''\<rparr>" usage_data 404
      "JObject [(''message'', JString ''Not Found'')]" "[(''season'', ''2025'')]"
      "fixed_clock \<lparr>d_year = 2026, d_month = 11, d_day = 4\<rparr>"
      "Inr (JObject [(''message'', JString ''Not Found'')])"]
  by (simp add: get_odds_relay get_ratings_relay get_games_relay get_teams_relay plain_relay_def
      counted_relay_def upstream_answer_def upstream_always_def error_body_def str_int_def key_eval)

theorem teams_error_body_not_relayed:
  "response (get_teams \<lparr>CBBD_API_KEY = ''k1'', ODDS_API_KEY = ''k2''\<rparr>
        (upstream_always (Response 404 (Inr (JObject [(''message'', JString ''Not Found'')]))))
        (fixed_clock \<lparr>d_year = 2026, d_month = 11, d_day = 4\<rparr>) usage_data)
     = (JObject [(''error'', JString ''API returned 404'')], 404) \<and>
   response (get_teams \<lparr>CBBD_API_KEY = ''k1'', ODDS_API_KEY = ''k2''\<rparr>
        (upstream_always (Response 404 (Inr (JObject [(''message'', JString ''Not Found'')]))))
        (fixed_clock \<lparr>d_year = 2026, d_month = 11, d_day = 4\<rparr>) usage_data)
     \<noteq> (JObject [(''message'', JString ''Not Found'')], 404)"
  by (simp add: get_teams_relay counted_relay_def upstream_always_def error_body_def str_int_def
      key_eval)

text \<open>
  Claim C6. When the credential an endpoint needs is empty, the handler answers with
  status 500 and the body \<^verbatim>\<open>{error: "<KEY> not configured"}\<close>, makes no outbound call and
  leaves the ledger unchanged: the odds endpoint for \<^verbatim>\<open>ODDS_API_KEY\<close>, the ratings, games
  and teams endpoints for \<^verbatim>\<open>CBBD_API_KEY\<close>.
\<close>

theorem unconfigured_credential:
  "(ODDS_API_KEY cfg = [] \<longrightarrow>
      get_odds cfg net u =
        \<lparr>response = (JObject [(''error'', JString ''ODDS_API_KEY not configured'')], 500),
         ledger_after = u, calls = []\<rparr>) \<and>
   (CBBD_API_KEY cfg = [] \<longrightarrow>
      get_ratings cfg args net clk u =
        \<lparr>response = (JObject [(''error'', JString ''CBBD_API_KEY not configured'')], 500),
         ledger_after = u, calls = []\<rparr> \<and>
      get_games cfg args net clk u =
        \<lparr>response = (JObject [(''error'', JString ''CBBD_API_KEY not configured'')], 500),
         ledger_after = u, calls = []\<rparr> \<and>
      get_teams cfg net clk u =
        \<lparr>response = (JObject [(''error'', JString ''CBBD_API_KEY not configured'')], 500),
         ledger_after = u, calls = []\<rparr>)"
  by (simp add: unconfigured_odds unconfigured_cbbd error_body_def)

theorem unconfigured_credential_witness:
  "ODDS_API_KEY \<lparr>CBBD_API_KEY = [], ODDS_API_KEY = []\<rparr> = [] \<and>
   CBBD_API_KEY \<lparr>CBBD_API_KEY = [], ODDS_API_KEY = []\<rparr> = [] \<and>
   get_odds \<lparr>CBBD_API_KEY = [], ODDS_API_KEY = []\<rparr>
       (upstream_always (Response 200 (Inr JNull))) usage_data =
     \<lparr>response = (JObject [(''error'', JString ''ODDS_API_KEY not configured'')], 500),
      ledger_after = usage_data, calls = []\<rparr> \<and>
   get_ratings \<lparr>CBBD_API_KEY = [], ODDS_API_KEY = []\<rparr> []
       (upstream_always (Response 200 (Inr JNull)))
       (fixed_clock \<lparr>d_year = 2026, d_month = 11, d_day = 4\<rparr>) usage_data =
     \<lparr>response = (JObject [(''error'', JString ''CBBD_API_KEY not configured'')], 500),
      ledger_after = usage_data, calls = []\<rparr> \<and>
   get_games \<lparr>CBBD_API_KEY = [], ODDS_API_KEY = []\<rparr> []
       (upstream_always (Response 200 (Inr JNull)))
       (fixed_clock \<lparr>d_year = 2026, d_month = 11, d_day = 4\<rparr>) usage_data =
     \<lparr>response = (JObject [(''error'', JString ''CBBD_API_KEY not configured'')], 500),
      ledger_after = usage_data, calls = []\<rparr> \<and>
   get_teams \<lparr>CBBD_API_KEY = [], ODDS_API_KEY = []\<rparr>
       (upstream_always (Response 200 (Inr JNull)))
       (fixed_clock \<lparr>d_year = 2026, d_month = 11, d_day = 4\<rparr>) usage_data =
     \<lparr>response = (JObject [(''error'', JString ''CBBD_API_KEY not configured'')], 500),
      ledger_after = usage_data, calls = []\<rparr>"
  using unconfigured_credential
    [of "\<lparr>CBBD_API_KEY = [], ODDS_API_KEY = []\<rparr>" "upstream_always (Response 200 (Inr JNull))"
      usage_data "[]" "fixed_clock \<lparr>d_year = 2026, d_month = 11, d_day = 4\<rparr>"]
  by simp

text \<open>
  Claim C7. The odds handler never touches the ledger: whatever the credential and
  whatever the upstream does (status 200, another status, a raised exception), the
  ledger after the call is the ledger before it, and so are the counts that a snapshot
  reports.
\<close>

theorem odds_leaves_ledger:
  "ledger_after (get_odds cfg net u) = u \<and>
   get_usage_stats clk (ledger_after (get_odds cfg net u)) = get_usage_stats clk u"
  by (cases "ODDS_API_KEY cfg = []")
    (simp_all add: unconfigured_odds get_odds_relay ledger_after_plain_relay)

section \<open>Further properties of the code\<close>

text \<open>
  The daily limit is reported, never enforced: after more than \<open>DAILY_LIMIT\<close> increments on
  one day-key, started on a ledger with no entry for it, the snapshot reports a count
  above the limit and \<open>todayRemaining = 0\<close>.
\<close>

theorem over_limit_reported_not_enforced:
  "daily u K = None \<and> (\<forall>c \<in> set cs. get_today_key (c 0) = K) \<and> get_today_key (clk 0) = K \<and>
   nat DAILY_LIMIT < length cs \<Longrightarrow>
   today (fst (get_usage_stats clk (increments cs u))) = int (length cs) \<and>
   dailyLimit (fst (get_usage_stats clk (increments cs u))) <
     today (fst (get_usage_stats clk (increments cs u))) \<and>
   todayRemaining (fst (get_usage_stats clk (increments cs u))) = 0"
proof -
  assume a: "daily u K = None \<and> (\<forall>c \<in> set cs. get_today_key (c 0) = K) \<and>
    get_today_key (clk 0) = K \<and> nat DAILY_LIMIT < length cs"
  then have "dict_get (daily (increments cs u)) K 0 = dict_get (daily u) K 0 + int (length cs)"
    by (intro daily_increments_same_key) simp
  with a show ?thesis
    by (simp add: get_usage_stats_def Let_def dict_get_def DAILY_LIMIT_def)
qed

theorem over_limit_reported_not_enforced_witness:
  "daily usage_data ''2026-11-04'' = None \<and>
   nat DAILY_LIMIT <
     length (replicate 101 (fixed_clock \<lparr>d_year = 2026, d_month = 11, d_day = 4\<rparr>)) \<and>
   today (fst (get_usage_stats (fixed_clock \<lparr>d_year = 2026, d_month = 11, d_day = 4\<rparr>)
     (increments (replicate 101 (fixed_clock \<lparr>d_year = 2026, d_month = 11, d_day = 4\<rparr>))
        usage_data))) = 101 \<and>
   todayRemaining (fst (get_usage_stats (fixed_clock \<lparr>d_year = 2026, d_month = 11, d_day = 4\<rparr>)
     (increments (replicate 101 (fixed_clock \<lparr>d_year = 2026, d_month = 11, d_day = 4\<rparr>))
        usage_data))) = 0"
  using over_limit_reported_not_enforced [of usage_data "''2026-11-04''"
      "replicate 101 (fixed_clock \<lparr>d_year = 2026, d_month = 11, d_day = 4\<rparr>)"
      "fixed_clock \<lparr>d_year = 2026, d_month = 11, d_day = 4\<rparr>"]
  by (simp add: usage_data_def key_eval DAILY_LIMIT_def)

text \<open>
  A quota-counted handler increments the ledger before it parses the upstream body: on
  status 200 with a body that is not JSON, the teams handler answers 500 with the parse
  error, and the call has been counted.
\<close>

theorem increment_before_parse:
  "CBBD_API_KEY cfg \<noteq> [] \<and> net (teams_call cfg) = Response 200 (Inl e) \<Longrightarrow>
   get_teams cfg net clk u =
     \<lparr>response = (JObject [(''error'', JString e)], 500),
      ledger_after = snd (increment_usage clk u), calls = [teams_call cfg]\<rparr>"
  by (simp add: get_teams_relay counted_relay_def error_body_def case_prod_beta)

theorem increment_before_parse_witness:
  "CBBD_API_KEY \<lparr>CBBD_API_KEY = ''k1'', ODDS_API_KEY = ''k2''\<rparr> \<noteq> [] \<and>
   upstream_always (Response 200 (Inl ''Expecting value''))
     (teams_call \<lparr>CBBD_API_KEY = ''k1'', ODDS_API_KEY = ''k2''\<rparr>) =
     Response 200 (Inl ''Expecting value'') \<and>
   get_teams \<lparr>CBBD_API_KEY = ''k1'', ODDS_API_KEY = ''k2''\<rparr>
       (upstream_always (Response 200 (Inl ''Expecting value'')))
       (fixed_clock \<lparr>d_year = 2026, d_month = 11, d_day = 4\<rparr>) usage_data =
     \<lparr>response = (JObject [(''error'', JString ''Expecting value'')], 500),
      ledger_after = \<lparr>daily = [''2026-11-04'' \<mapsto> 1], monthly = [''2026-11'' \<mapsto> 1]\<rparr>,
      calls = [\<lparr>url = ''https://api.collegebasketballdata.com/teams'', params = [],
                headers = [(''Authorization'', ''Bearer k1''),
                           (''Content-Type'', ''application/json'')],
                timeout = 30\<rparr>]\<rparr>"
  using increment_before_parse
    [of "\<lparr>CBBD_API_KEY = ''k1'', ODDS_API_KEY = ''k2''\<rparr>"
      "upstream_always (Response 200 (Inl ''Expecting value''))" "''Expecting value''"
      "fixed_clock \<lparr>d_year = 2026, d_month = 11, d_day = 4\<rparr>" usage_data]
  by (simp add: upstream_always_def teams_call_def CBBD_API_BASE_def snd_increment_usage
      usage_data_def dict_get_def key_eval)

end
